theory Spec2Isabelle
  imports Main "HOL-Library.Multiset" "HOL-Library.Sublist"
begin

section \<open>JavaScript strings\<close>

text \<open>
  Strings are lists of code units.  The model covers the code units below 256 (the
  Latin-1 range of UTF-16), which is what \<^typ>\<open>char\<close> holds.  In that range
  \<^verbatim>\<open>String.prototype.trim\<close> and the regular expression class \<^verbatim>\<open>\s\<close> strip the
  same seven code units, and \<^verbatim>\<open>toLowerCase\<close> moves \<^verbatim>\<open>A-Z\<close> and the accented capitals
  \<^verbatim>\<open>U+00C0..U+00DE\<close> (without the multiplication sign \<^verbatim>\<open>U+00D7\<close>) up by 32.
\<close>

definition isWhiteSpace :: "char \<Rightarrow> bool" where
  "isWhiteSpace c = (of_char c \<in> {9, 10, 11, 12, 13, 32, 160 :: nat})"

definition toLowerCase_char :: "char \<Rightarrow> char" where
  "toLowerCase_char c =
     (let n = (of_char c :: nat)
      in if (65 \<le> n \<and> n \<le> 90) \<or> (192 \<le> n \<and> n \<le> 222 \<and> n \<noteq> 215)
         then char_of (n + 32) else c)"

definition toLowerCase :: "string \<Rightarrow> string" where
  "toLowerCase s = map toLowerCase_char s"

definition trim :: "string \<Rightarrow> string" where
  "trim s = rev (dropWhile isWhiteSpace (rev (dropWhile isWhiteSpace s)))"

text \<open>\<^verbatim>\<open>s.includes(t)\<close>: \<open>t\<close> occurs in \<open>s\<close> as a contiguous run.\<close>

fun includes_str :: "string \<Rightarrow> string \<Rightarrow> bool" where
  "includes_str [] t = (t = [])"
| "includes_str (c # cs) t = (prefix t (c # cs) \<or> includes_str cs t)"

text \<open>
  \<^verbatim>\<open>a.localeCompare(b)\<close> is the host's collation and is a parameter \<open>cmp\<close> of the
  model wherever the code calls it.  \<open>codeunit_compare\<close> is the comparison by code
  units; on strings of lower-case ASCII letters it is the order every locale's
  collation gives, and the concrete evaluations below use it on such strings only.
\<close>

fun codeunit_compare :: "string \<Rightarrow> string \<Rightarrow> int" where
  "codeunit_compare [] [] = 0"
| "codeunit_compare [] (y # ys) = - 1"
| "codeunit_compare (x # xs) [] = 1"
| "codeunit_compare (x # xs) (y # ys) =
     (if (of_char x :: nat) < of_char y then - 1
      else if (of_char y :: nat) < of_char x then 1
      else codeunit_compare xs ys)"

text \<open>
  \<^verbatim>\<open>Array.prototype.sort(comparator)\<close> is stable (ECMAScript 2019): for a consistent
  comparator its result is the stable insertion of each element into the sorted rest.
  \<open>comparator a b \<le> 0\<close> keeps \<open>a\<close> in front of \<open>b\<close>.
\<close>

fun insert_by :: "('a \<Rightarrow> 'a \<Rightarrow> int) \<Rightarrow> 'a \<Rightarrow> 'a list \<Rightarrow> 'a list" where
  "insert_by comparator a [] = [a]"
| "insert_by comparator a (b # bs) =
     (if comparator a b \<le> 0 then a # b # bs else b # insert_by comparator a bs)"

definition array_sort :: "('a \<Rightarrow> 'a \<Rightarrow> int) \<Rightarrow> 'a list \<Rightarrow> 'a list" where
  "array_sort comparator xs = foldr (insert_by comparator) xs []"

text \<open>A comparator is consistent when \<open>\<le> 0\<close> is a total preorder.\<close>

definition consistent :: "('a \<Rightarrow> 'a \<Rightarrow> int) \<Rightarrow> bool" where
  "consistent comparator \<longleftrightarrow>
     (\<forall>a b. comparator a b \<le> 0 \<or> comparator b a \<le> 0) \<and>
     (\<forall>a b c. comparator a b \<le> 0 \<longrightarrow> comparator b c \<le> 0 \<longrightarrow> comparator a c \<le> 0)"


section \<open>Job browser: list state, search and sort\<close>

text \<open>
  \<^verbatim>\<open>JobListingManager\<close> and \<^verbatim>\<open>UnifiedJobApplicationSystem\<close> hold the same four
  fields and the same \<^verbatim>\<open>filterJobs\<close>, \<^verbatim>\<open>toggleSort\<close>, \<^verbatim>\<open>sortJobs\<close> and
  \<^verbatim>\<open>renderJobList\<close>; one model serves both.
\<close>

record job =
  job_id :: int
  title :: string
  company :: string
  location :: string

datatype SortOrder = Asc | Desc

datatype SortBy = Title | Location | Company

text \<open>What \<^verbatim>\<open>renderJobList\<close> leaves in the list container: a full replace each time.\<close>

datatype list_view = Loading string | NoJobsFound | Rows "job list"

record listing =
  jobs :: "job list"
  filteredJobs :: "job list"
  sortBy :: SortBy
  sortOrder :: SortOrder
  roleListWrap :: list_view

definition initial_listing :: listing where
  "initial_listing =
     \<lparr>jobs = [], filteredJobs = [], sortBy = Title, sortOrder = Asc,
      roleListWrap = Loading ''Loading...''\<rparr>"

definition renderJobList :: "listing \<Rightarrow> listing" where
  "renderJobList s =
     (if filteredJobs s = [] then s\<lparr>roleListWrap := NoJobsFound\<rparr>
      else s\<lparr>roleListWrap := Rows (filteredJobs s)\<rparr>)"

text \<open>The success path of \<^verbatim>\<open>loadJobs\<close>: the response replaces both lists.\<close>

definition loadJobs :: "job list \<Rightarrow> listing \<Rightarrow> listing" where
  "loadJobs response s = renderJobList (s\<lparr>jobs := response, filteredJobs := response\<rparr>)"

definition job_matches :: "string \<Rightarrow> job \<Rightarrow> bool" where
  "job_matches term j \<longleftrightarrow>
     includes_str (toLowerCase (title j)) term \<or>
     includes_str (toLowerCase (company j)) term \<or>
     includes_str (toLowerCase (location j)) term"

definition filterJobs :: "string \<Rightarrow> listing \<Rightarrow> listing" where
  "filterJobs searchTerm s =
     (let term = trim (toLowerCase searchTerm)
      in renderJobList
           (if term = [] then s\<lparr>filteredJobs := jobs s\<rparr>
            else s\<lparr>filteredJobs := filter (job_matches term) (jobs s)\<rparr>))"

fun field_of :: "SortBy \<Rightarrow> job \<Rightarrow> string" where
  "field_of Title j = title j"
| "field_of Location j = location j"
| "field_of Company j = company j"

definition sort_comparator ::
  "(string \<Rightarrow> string \<Rightarrow> int) \<Rightarrow> SortBy \<Rightarrow> SortOrder \<Rightarrow> job \<Rightarrow> job \<Rightarrow> int" where
  "sort_comparator cmp by ord a b =
     (let aValue = toLowerCase (field_of by a);
          bValue = toLowerCase (field_of by b)
      in if ord = Asc then cmp aValue bValue else cmp bValue aValue)"

definition sortJobs :: "(string \<Rightarrow> string \<Rightarrow> int) \<Rightarrow> listing \<Rightarrow> listing" where
  "sortJobs cmp s =
     s\<lparr>filteredJobs :=
         array_sort (sort_comparator cmp (sortBy s) (sortOrder s)) (filteredJobs s)\<rparr>"

definition toggleSort :: "(string \<Rightarrow> string \<Rightarrow> int) \<Rightarrow> listing \<Rightarrow> listing" where
  "toggleSort cmp s =
     renderJobList
       (sortJobs cmp
          (if sortBy s = Location
           then s\<lparr>sortOrder := (if sortOrder s = Asc then Desc else Asc)\<rparr>
           else s\<lparr>sortBy := Location, sortOrder := Asc\<rparr>))"

text \<open>The list is in ascending order of the lower-cased location.\<close>

definition ascending_by_location :: "(string \<Rightarrow> string \<Rightarrow> int) \<Rightarrow> job list \<Rightarrow> bool" where
  "ascending_by_location cmp js =
     sorted_wrt (\<lambda>a b. cmp (toLowerCase (location a)) (toLowerCase (location b)) \<le> 0) js"


text \<open>
  The events that change the list, as the handlers bound in \<^verbatim>\<open>bindEvents\<close> /
  \<^verbatim>\<open>bindJobEvents\<close> and the success path of \<^verbatim>\<open>loadJobs\<close> receive them.  A search
  input arrives here after the debounce timer has fired.
\<close>

datatype event = JobsLoaded "job list" | SearchInput string | LocationSortClick

fun handle :: "(string \<Rightarrow> string \<Rightarrow> int) \<Rightarrow> listing \<Rightarrow> event \<Rightarrow> listing" where
  "handle cmp s (JobsLoaded response) = loadJobs response s"
| "handle cmp s (SearchInput searchTerm) = filterJobs searchTerm s"
| "handle cmp s LocationSortClick = toggleSort cmp s"

definition run :: "(string \<Rightarrow> string \<Rightarrow> int) \<Rightarrow> event list \<Rightarrow> listing" where
  "run cmp evs = foldl (handle cmp) initial_listing evs"

text \<open>
  The search term the list currently reflects: the one of the last search, and none
  once a fresh list has been loaded (\<^verbatim>\<open>loadJobs\<close> shows the whole response).
\<close>

fun term_after :: "string \<Rightarrow> event \<Rightarrow> string" where
  "term_after t (JobsLoaded response) = []"
| "term_after t (SearchInput searchTerm) = searchTerm"
| "term_after t LocationSortClick = t"

definition current_term :: "event list \<Rightarrow> string" where
  "current_term evs = foldl term_after [] evs"

text \<open>
  The specification's wording of the search: a job matches when its title, company or
  location contains the term as a case-insensitive substring.
\<close>

definition contains_ci :: "string \<Rightarrow> string \<Rightarrow> bool" where
  "contains_ci s t \<longleftrightarrow> sublist (toLowerCase t) (toLowerCase s)"

definition spec_search_match :: "string \<Rightarrow> job \<Rightarrow> bool" where
  "spec_search_match t j \<longleftrightarrow>
     contains_ci (title j) t \<or> contains_ci (company j) t \<or> contains_ci (location j) t"

text \<open>The job list of the specification's example.\<close>

definition job1 :: job where
  "job1 = \<lparr>job_id = 1, title = ''Engineer'', company = ''Acme'', location = ''Leeds''\<rparr>"

definition job2 :: job where
  "job2 = \<lparr>job_id = 2, title = ''Designer'', company = ''Acme'', location = ''Remote''\<rparr>"

definition example_listing :: listing where
  "example_listing = loadJobs [job1, job2] initial_listing"


section \<open>Regular expressions\<close>

text \<open>
  The validators test their input against regular expression literals.  A regular
  expression is a term over character classes, matched by derivatives.  An anchored
  pattern \<^verbatim>\<open>/^r$/\<close> tests the whole string; a pattern \<^verbatim>\<open>/^r/\<close> with no end anchor
  tests for a prefix.
\<close>

datatype rexp =
    Never
  | Eps
  | Sym "char \<Rightarrow> bool"
  | Alt rexp rexp
  | Seq rexp rexp
  | Star rexp

fun nullable :: "rexp \<Rightarrow> bool" where
  "nullable Never = False"
| "nullable Eps = True"
| "nullable (Sym p) = False"
| "nullable (Alt r q) = (nullable r \<or> nullable q)"
| "nullable (Seq r q) = (nullable r \<and> nullable q)"
| "nullable (Star r) = True"

fun deriv :: "char \<Rightarrow> rexp \<Rightarrow> rexp" where
  "deriv c Never = Never"
| "deriv c Eps = Never"
| "deriv c (Sym p) = (if p c then Eps else Never)"
| "deriv c (Alt r q) = Alt (deriv c r) (deriv c q)"
| "deriv c (Seq r q) =
     (if nullable r then Alt (Seq (deriv c r) q) (deriv c q) else Seq (deriv c r) q)"
| "deriv c (Star r) = Seq (deriv c r) (Star r)"

fun matches_whole :: "rexp \<Rightarrow> string \<Rightarrow> bool" where
  "matches_whole r [] = nullable r"
| "matches_whole r (c # cs) = matches_whole (deriv c r) cs"

fun matches_prefix :: "rexp \<Rightarrow> string \<Rightarrow> bool" where
  "matches_prefix r [] = nullable r"
| "matches_prefix r (c # cs) = (nullable r \<or> matches_prefix (deriv c r) cs)"

definition Plus :: "rexp \<Rightarrow> rexp" where
  "Plus r = Seq r (Star r)"

definition Opt :: "rexp \<Rightarrow> rexp" where
  "Opt r = Alt r Eps"

text \<open>A literal run of characters, and the same under the \<^verbatim>\<open>i\<close> flag.\<close>

fun lit :: "string \<Rightarrow> rexp" where
  "lit [] = Eps"
| "lit (c # cs) = Seq (Sym (\<lambda>x. x = c)) (lit cs)"

fun lit_i :: "string \<Rightarrow> rexp" where
  "lit_i [] = Eps"
| "lit_i (c # cs) = Seq (Sym (\<lambda>x. toLowerCase_char x = toLowerCase_char c)) (lit_i cs)"

text \<open>\<^verbatim>\<open>[^\s@]\<close>, and the dot, which matches everything except a line terminator.\<close>

definition not_space_or_at :: "char \<Rightarrow> bool" where
  "not_space_or_at c \<longleftrightarrow> \<not> isWhiteSpace c \<and> c \<noteq> CHR ''@''"

definition dot :: "char \<Rightarrow> bool" where
  "dot c \<longleftrightarrow> of_char c \<notin> {10, 13 :: nat}"

text \<open>\<^verbatim>\<open>/^[^\s@]+@[^\s@]+\.[^\s@]+$/\<close>\<close>

definition EMAIL_REGEX :: rexp where
  "EMAIL_REGEX =
     Seq (Plus (Sym not_space_or_at))
       (Seq (lit ''@'')
         (Seq (Plus (Sym not_space_or_at))
           (Seq (lit ''.'') (Plus (Sym not_space_or_at)))))"

text \<open>\<^verbatim>\<open>/^https?:\/\/(www\.)?linkedin\.com\/.+/i\<close>\<close>

definition LINKEDIN_REGEX :: rexp where
  "LINKEDIN_REGEX =
     Seq (lit_i ''http'')
       (Seq (Opt (lit_i ''s''))
         (Seq (lit_i ''://'')
           (Seq (Opt (lit_i ''www.''))
             (Seq (lit_i ''linkedin.com/'') (Plus (Sym dot))))))"

text \<open>
  \<^verbatim>\<open>/^https?:\/\/(www\.)?linkedin\.com\/in\/[a-zA-Z0-9-]+\/?$/\<close>, the pattern of the
  validator that accompanies \<^verbatim>\<open>JobListingManager\<close>.
\<close>

definition alnum_or_dash :: "char \<Rightarrow> bool" where
  "alnum_or_dash c \<longleftrightarrow>
     (let n = (of_char c :: nat)
      in (97 \<le> n \<and> n \<le> 122) \<or> (65 \<le> n \<and> n \<le> 90) \<or> (48 \<le> n \<and> n \<le> 57) \<or> n = 45)"

definition linkedinRegex :: rexp where
  "linkedinRegex =
     Seq (lit ''http'')
       (Seq (Opt (lit ''s''))
         (Seq (lit ''://'')
           (Seq (Opt (lit ''www.''))
             (Seq (lit ''linkedin.com/in/'')
               (Seq (Plus (Sym alnum_or_dash)) (Opt (lit ''/'')))))))"


section \<open>Application form: data, validators\<close>

record File =
  file_name :: string
  file_type :: string
  file_size :: nat

text \<open>
  \<^verbatim>\<open>ApplicationData\<close>.  The three files that declare it give it different field sets
  (\<^verbatim>\<open>resume-form.ts\<close> all of the fields below; the unified system the first six and
  \<open>resume\<close>; the listing manager no phone number and no files); each validator
  reads only the fields its own declaration has.
\<close>

record ApplicationData =
  firstName :: string
  lastName :: string
  email :: string
  phoneNumber :: string
  linkedinUrl :: string
  consent :: bool
  resume :: "File option"
  coverLetter :: "File option"
  additionalFiles :: "File list"
  desiredSalary :: string
  desiredAdditionalCompensation :: string

record ValidationResult =
  isValid :: bool
  errors :: "string list"

text \<open>\<^verbatim>\<open>errors.join(sep)\<close>\<close>

fun join :: "string \<Rightarrow> string list \<Rightarrow> string" where
  "join sep [] = []"
| "join sep [x] = x"
| "join sep (x # y # ys) = x @ sep @ join sep (y # ys)"

definition validateEmail :: "string \<Rightarrow> bool" where
  "validateEmail e = matches_whole EMAIL_REGEX e"

definition validateLinkedInUrl :: "string \<Rightarrow> bool" where
  "validateLinkedInUrl url = (if url = [] then True else matches_prefix LINKEDIN_REGEX url)"

definition validateLinkedInUrl_listing :: "string \<Rightarrow> bool" where
  "validateLinkedInUrl_listing url =
     (if url = [] then True else matches_whole linkedinRegex url)"

text \<open>
  \<^verbatim>\<open>JobApplicationValidator.validateForm\<close> of \<^verbatim>\<open>resume-form.ts\<close>.  Each \<^verbatim>\<open>if\<close> of the
  source pushes at most one message; the list is the pushes in order.
\<close>

definition validateForm :: "ApplicationData \<Rightarrow> string list" where
  "validateForm formData =
     (if trim (firstName formData) = [] then [''First name is required''] else []) @
     (if trim (lastName formData) = [] then [''Last name is required''] else []) @
     (if trim (email formData) = [] then [''Email is required'']
      else if \<not> validateEmail (email formData) then [''Please enter a valid email address'']
      else []) @
     (if trim (phoneNumber formData) = [] then [''Phone number is required''] else []) @
     (if linkedinUrl formData \<noteq> [] \<and> \<not> validateLinkedInUrl (linkedinUrl formData)
      then [''Please enter a valid LinkedIn URL''] else [])"

text \<open>\<^verbatim>\<open>JobApplicationValidator.validateForm\<close> of the unified system.\<close>

definition validateForm_unified :: "ApplicationData \<Rightarrow> string list" where
  "validateForm_unified formData =
     (if trim (firstName formData) = [] then [''First name is required''] else []) @
     (if trim (lastName formData) = [] then [''Last name is required''] else []) @
     (if trim (email formData) = [] then [''Email is required'']
      else if \<not> validateEmail (email formData) then [''Please enter a valid email address'']
      else []) @
     (if trim (phoneNumber formData) = [] then [''Phone number is required''] else []) @
     (if linkedinUrl formData \<noteq> [] \<and> \<not> validateLinkedInUrl (linkedinUrl formData)
      then [''Please enter a valid LinkedIn URL''] else []) @
     (if \<not> consent formData
      then [''You must consent to be contacted about job opportunities''] else [])"

text \<open>\<^verbatim>\<open>JobApplicationValidator.validateForm\<close> of the listing manager's file.\<close>

definition validateForm_listing :: "ApplicationData \<Rightarrow> string list" where
  "validateForm_listing formData =
     (if trim (firstName formData) = [] then [''First name is required''] else []) @
     (if trim (lastName formData) = [] then [''Last name is required''] else []) @
     (if trim (email formData) = [] then [''Email is required'']
      else if \<not> validateEmail (email formData) then [''Please enter a valid email address'']
      else []) @
     (if linkedinUrl formData \<noteq> [] \<and> \<not> validateLinkedInUrl_listing (linkedinUrl formData)
      then [''Please enter a valid LinkedIn URL''] else []) @
     (if \<not> consent formData
      then [''You must consent to be contacted about job opportunities''] else [])"

definition ALLOWED_FILE_TYPES :: "string list" where
  "ALLOWED_FILE_TYPES =
     [''application/pdf'',
      ''application/msword'',
      ''application/vnd.openxmlformats-officedocument.wordprocessingml.document'',
      ''text/plain'']"

definition MAX_FILE_SIZE :: nat where
  "MAX_FILE_SIZE = 5 * 1024 * 1024"

text \<open>
  \<^verbatim>\<open>FileValidator.validateFile\<close>, the same text in \<^verbatim>\<open>resume-form.ts\<close> and in the unified
  system.
\<close>

definition validateFile :: "File \<Rightarrow> ValidationResult" where
  "validateFile f =
     (let errors =
        (if file_type f \<notin> set ALLOWED_FILE_TYPES
         then [''Please upload a PDF, DOC, DOCX, or TXT file''] else []) @
        (if file_size f > MAX_FILE_SIZE
         then [''File size must be less than 5MB''] else [])
      in \<lparr>isValid = (length errors = 0), errors = errors\<rparr>)"

text \<open>\<^verbatim>\<open>JobApplicationForm.validateFile\<close> of \<^verbatim>\<open>form.ts\<close>, with the class's own constants.\<close>

definition validateFile_form :: "File \<Rightarrow> ValidationResult" where
  "validateFile_form f =
     (let errors =
        (if file_type f \<notin> set ALLOWED_FILE_TYPES
         then [''Please upload a PDF, DOC, DOCX, or TXT file''] else []) @
        (if file_size f > MAX_FILE_SIZE
         then [''File size must be less than 5MB''] else [])
      in \<lparr>isValid = (length errors = 0), errors = errors\<rparr>)"


section \<open>Application form: uploads and submission\<close>

text \<open>
  What a form controller does to the world outside its own fields: the banners it
  shows (\<^verbatim>\<open>showError\<close>, \<^verbatim>\<open>showSuccess\<close>, in call order) and the requests it hands to
  \<^verbatim>\<open>fetch\<close>.  The controllers' state records extend this one.
\<close>

datatype part = Text string | Blob File

record request =
  http_method :: string
  url :: string
  body :: "(string \<times> part) list"

record effects =
  errorBanners :: "string list"
  successBanners :: nat
  fetchCalls :: "request list"

definition showError :: "string \<Rightarrow> 'a effects_scheme \<Rightarrow> 'a effects_scheme" where
  "showError message s = s\<lparr>errorBanners := errorBanners s @ [message]\<rparr>"

definition showSuccess :: "'a effects_scheme \<Rightarrow> 'a effects_scheme" where
  "showSuccess s = s\<lparr>successBanners := Suc (successBanners s)\<rparr>"

text \<open>
  What the awaited \<^verbatim>\<open>fetch\<close> and \<^verbatim>\<open>response.json()\<close> give back: a rejected promise,
  or a response with its \<^verbatim>\<open>ok\<close> flag and, when the body parses, the \<^verbatim>\<open>success\<close> flag
  of the \<^verbatim>\<open>ApiResponse\<close>.
\<close>

datatype outcome = Rejected | Response bool "bool option"

text \<open>The values of the form's inputs when the visitor submits.\<close>

record inputs =
  First_Name :: string
  Last_Name :: string
  Email :: string
  Phone_Number :: string
  Linkedin_URL :: string
  consent_checked :: bool
  Desired_Salary :: string
  Desired_Additional_Compensation :: string

subsection \<open>\<^verbatim>\<open>JobApplicationForm\<close> of \<^verbatim>\<open>resume-form.ts\<close>\<close>

record resume_form = effects +
  uploadedResumeFile :: "File option"
  uploadedCoverLetterFile :: "File option"
  uploadedAdditionalFiles :: "File list"

definition handleFileUpload :: "File \<Rightarrow> string \<Rightarrow> resume_form \<Rightarrow> resume_form" where
  "handleFileUpload f inputName s =
     (let validation = validateFile f
      in if \<not> isValid validation then showError (join ''. '' (errors validation)) s
         else if inputName = ''Resume'' then s\<lparr>uploadedResumeFile := Some f\<rparr>
         else if inputName = ''cover_letter'' then s\<lparr>uploadedCoverLetterFile := Some f\<rparr>
         else if length (uploadedAdditionalFiles s) < 3
           then s\<lparr>uploadedAdditionalFiles := uploadedAdditionalFiles s @ [f]\<rparr>
         else showError ''You can only upload up to 3 additional files.'' s)"

definition collectFormData :: "inputs \<Rightarrow> resume_form \<Rightarrow> ApplicationData" where
  "collectFormData i s =
     \<lparr>firstName = First_Name i, lastName = Last_Name i, email = Email i,
      phoneNumber = Phone_Number i, linkedinUrl = Linkedin_URL i,
      consent = consent_checked i,
      resume = uploadedResumeFile s, coverLetter = uploadedCoverLetterFile s,
      additionalFiles = uploadedAdditionalFiles s,
      desiredSalary = Desired_Salary i,
      desiredAdditionalCompensation = Desired_Additional_Compensation i\<rparr>"

definition validateFormData :: "ApplicationData \<Rightarrow> ValidationResult" where
  "validateFormData d =
     (let errors = validateForm d @
                   (if resume d = None then [''Please upload your resume''] else [])
      in \<lparr>isValid = (length errors = 0), errors = errors\<rparr>)"

definition removeAllUploadedFiles :: "resume_form \<Rightarrow> resume_form" where
  "removeAllUploadedFiles s =
     s\<lparr>uploadedResumeFile := None, uploadedCoverLetterFile := None,
       uploadedAdditionalFiles := []\<rparr>"

definition handleSuccessfulSubmission :: "resume_form \<Rightarrow> resume_form" where
  "handleSuccessfulSubmission s = removeAllUploadedFiles (showSuccess s)"

definition formDataObj :: "ApplicationData \<Rightarrow> (string \<times> part) list" where
  "formDataObj d =
     [(''First-Name'', Text (firstName d)),
      (''Last-Name'', Text (lastName d)),
      (''Email'', Text (email d)),
      (''Phone-Number'', Text (phoneNumber d)),
      (''Linkedin-URL'', Text (linkedinUrl d)),
      (''desiredSalary'', Text (desiredSalary d)),
      (''desiredAdditionalCompensation'', Text (desiredAdditionalCompensation d))] @
     (case resume d of None \<Rightarrow> [] | Some f \<Rightarrow> [(''Resume'', Blob f)]) @
     (case coverLetter d of None \<Rightarrow> [] | Some f \<Rightarrow> [(''cover_letter'', Blob f)]) @
     map (\<lambda>f. (''additionalFile'', Blob f)) (additionalFiles d)"

definition submitForm :: "ApplicationData \<Rightarrow> outcome \<Rightarrow> resume_form \<Rightarrow> resume_form" where
  "submitForm d reply s =
     (let sent = s\<lparr>fetchCalls := fetchCalls s @
            [\<lparr>http_method = ''POST'', url = ''http://localhost:3000/api/people'',
              body = formDataObj d\<rparr>]\<rparr>
      in case reply of
           Response True (Some True) \<Rightarrow> handleSuccessfulSubmission sent
         | _ \<Rightarrow> showError ''Failed to submit application. Please try again.'' sent)"

definition handleFormSubmit :: "inputs \<Rightarrow> outcome \<Rightarrow> resume_form \<Rightarrow> resume_form" where
  "handleFormSubmit i reply s =
     (let formData = collectFormData i s;
          validation = validateFormData formData
      in if \<not> isValid validation then showError (join ''. '' (errors validation)) s
         else submitForm formData reply s)"

subsection \<open>The form of the unified system, and \<^verbatim>\<open>JobApplicationForm\<close> of \<^verbatim>\<open>form.ts\<close>\<close>

record single_form = effects +
  uploadedFile :: "File option"
  jobId :: "string option"

definition handleFileUpload_unified :: "File \<Rightarrow> single_form \<Rightarrow> single_form" where
  "handleFileUpload_unified f s =
     (let validation = validateFile f
      in if \<not> isValid validation then showError (join ''. '' (errors validation)) s
         else s\<lparr>uploadedFile := Some f\<rparr>)"

definition handleFileUpload_form :: "File \<Rightarrow> single_form \<Rightarrow> single_form" where
  "handleFileUpload_form f s =
     (let validation = validateFile_form f
      in if \<not> isValid validation then showError (join ''. '' (errors validation)) s
         else s\<lparr>uploadedFile := Some f\<rparr>)"

definition collectFormData_unified :: "inputs \<Rightarrow> single_form \<Rightarrow> ApplicationData" where
  "collectFormData_unified i s =
     \<lparr>firstName = First_Name i, lastName = Last_Name i, email = Email i,
      phoneNumber = Phone_Number i, linkedinUrl = Linkedin_URL i,
      consent = consent_checked i,
      resume = uploadedFile s, coverLetter = None, additionalFiles = [],
      desiredSalary = [], desiredAdditionalCompensation = []\<rparr>"

definition validateFormData_unified :: "ApplicationData \<Rightarrow> ValidationResult" where
  "validateFormData_unified d =
     (let errors = validateForm_unified d @
                   (if resume d = None then [''Please upload your resume''] else [])
      in \<lparr>isValid = (length errors = 0), errors = errors\<rparr>)"

definition submitForm_unified ::
  "ApplicationData \<Rightarrow> string \<Rightarrow> outcome \<Rightarrow> single_form \<Rightarrow> single_form" where
  "submitForm_unified d job reply s =
     (let sent = s\<lparr>fetchCalls := fetchCalls s @
            [\<lparr>http_method = ''POST'', url = ''http://localhost:3000/api/jobs/'' @ job @ ''/apply'',
              body =
                [(''First-Name'', Text (firstName d)),
                 (''Last-Name'', Text (lastName d)),
                 (''Email'', Text (email d)),
                 (''Phone-Number'', Text (phoneNumber d)),
                 (''Linkedin-URL'', Text (linkedinUrl d))] @
                (case resume d of None \<Rightarrow> [] | Some f \<Rightarrow> [(''Resume'', Blob f)])\<rparr>]\<rparr>
      in case reply of
           Response True (Some True) \<Rightarrow> (showSuccess sent)\<lparr>uploadedFile := None\<rparr>
         | _ \<Rightarrow> showError ''Failed to submit application. Please try again.'' sent)"

definition handleFormSubmit_unified :: "inputs \<Rightarrow> outcome \<Rightarrow> single_form \<Rightarrow> single_form" where
  "handleFormSubmit_unified i reply s =
     (let formData = collectFormData_unified i s;
          validation = validateFormData_unified formData
      in if \<not> isValid validation then showError (join ''. '' (errors validation)) s
         else case jobId s of
                None \<Rightarrow> showError ''Job ID not found'' s
              | Some job \<Rightarrow> if job = [] then showError ''Job ID not found'' s
                           else submitForm_unified formData job reply s)"

text \<open>An applicant who filled in everything and attached a resume, but gave no consent.\<close>

definition cv :: File where
  "cv = \<lparr>file_name = ''cv.pdf'', file_type = ''application/pdf'', file_size = 1024\<rparr>"

definition no_consent :: inputs where
  "no_consent =
     \<lparr>First_Name = ''Ada'', Last_Name = ''Lovelace'', Email = ''ada@example.com'',
      Phone_Number = ''020 7946 0000'', Linkedin_URL = [], consent_checked = False,
      Desired_Salary = [], Desired_Additional_Compensation = []\<rparr>"

definition fresh_resume_form :: resume_form where
  "fresh_resume_form =
     \<lparr>errorBanners = [], successBanners = 0, fetchCalls = [],
      uploadedResumeFile = None, uploadedCoverLetterFile = None,
      uploadedAdditionalFiles = []\<rparr>"

definition fresh_single_form :: single_form where
  "fresh_single_form =
     \<lparr>errorBanners = [], successBanners = 0, fetchCalls = [],
      uploadedFile = None, jobId = Some ''42''\<rparr>"


definition with_resume :: resume_form where
  "with_resume = handleFileUpload cv ''Resume'' fresh_resume_form"

text \<open>A program offered as a resume, and a PDF one byte over the ceiling.\<close>

definition setup_exe :: File where
  "setup_exe =
     \<lparr>file_name = ''setup.exe'', file_type = ''application/x-msdownload'', file_size = 10\<rparr>"

definition big_pdf :: File where
  "big_pdf =
     \<lparr>file_name = ''big.pdf'', file_type = ''application/pdf'',
      file_size = 5 * 1024 * 1024 + 1\<rparr>"

definition boundary_pdf :: File where
  "boundary_pdf =
     \<lparr>file_name = ''exact.pdf'', file_type = ''application/pdf'',
      file_size = 5 * 1024 * 1024\<rparr>"


section \<open>Feed renderer\<close>

text \<open>\<^verbatim>\<open>s.replace(/c/g, r)\<close> for a single character \<open>c\<close>.\<close>

definition replace_all :: "char \<Rightarrow> string \<Rightarrow> string \<Rightarrow> string" where
  "replace_all c r s = concat (map (\<lambda>x. if x = c then r else [x]) s)"

text \<open>
  \<^verbatim>\<open>escapeXml\<close>: five replacements, the ampersand first.  \<open>CHR 0x22\<close> is the double
  quote and \<open>CHR 0x27\<close> the apostrophe.
\<close>

definition escapeXml :: "string \<Rightarrow> string" where
  "escapeXml unsafe =
     replace_all (CHR 0x27) ''&apos;''
       (replace_all (CHR 0x22) ''&quot;''
         (replace_all CHR ''>'' ''&gt;''
           (replace_all CHR ''<'' ''&lt;''
             (replace_all CHR ''&'' ''&amp;'' unsafe))))"








text \<open>
  Reading a document: the text that follows the first occurrence of a marker, the
  text up to the first occurrence of a marker, and the text between an opening and the
  next closing marker.
\<close>

fun text_after :: "string \<Rightarrow> string \<Rightarrow> string option" where
  "text_after m [] = (if m = [] then Some [] else None)"
| "text_after m (c # cs) =
     (if prefix m (c # cs) then Some (drop (length m) (c # cs)) else text_after m cs)"

fun text_before :: "string \<Rightarrow> string \<Rightarrow> string option" where
  "text_before m [] = (if m = [] then Some [] else None)"
| "text_before m (c # cs) =
     (if prefix m (c # cs) then Some [] else map_option ((#) c) (text_before m cs))"

definition between :: "string \<Rightarrow> string \<Rightarrow> string \<Rightarrow> string option" where
  "between opening closing s =
     (case text_after opening s of None \<Rightarrow> None | Some r \<Rightarrow> text_before closing r)"

text \<open>\<^verbatim>\<open>${n}\<close> for a non-negative integer: its decimal digits.\<close>

fun toString :: "nat \<Rightarrow> string" where
  "toString n =
     (if n < 10 then [''0123456789'' ! n]
      else toString (n div 10) @ [''0123456789'' ! (n mod 10)])"

declare toString.simps [simp del]

text \<open>
  Modelled from the spec: the declaration of \<^verbatim>\<open>JobsResponse\<close> (\<^verbatim>\<open>@/types/jobs\<close>) is not
  among the sources.  A listing response is the list \<^verbatim>\<open>results\<close>; a job in it has the
  four fields the renderers read: the numeric identifier, the title, the location
  \<^verbatim>\<open>macro_address\<close>, which may be unset, and the published timestamp.
\<close>

record rss_job =
  id_rss :: nat
  title_rss :: string
  macro_address :: "string option"
  published_at :: string

text \<open>
  The clock the renderer reads: \<^verbatim>\<open>new Date().toUTCString()\<close> and
  \<^verbatim>\<open>new Date().getFullYear()\<close>.  \<^verbatim>\<open>new Date(job.published_at).toUTCString()\<close> is the
  host's date formatting and is the parameter \<open>toUTCString\<close> of the renderer that
  calls it.
\<close>

record clock =
  currentDate :: string
  fullYear :: nat

definition baseUrl :: string where
  "baseUrl = ''https://chaloner.com/open-roles''"

text \<open>The text handed to \<^verbatim>\<open>escapeXml\<close> for the title, and \<^verbatim>\<open>location\<close>.\<close>

definition title_text :: "rss_job \<Rightarrow> string" where
  "title_text j =
     title_rss j @
     (case macro_address j of
        None \<Rightarrow> []
      | Some a \<Rightarrow> if a = [] then [] else '' ('' @ a @ '')'')"

definition location_text :: "rss_job \<Rightarrow> string" where
  "location_text j = (case macro_address j of None \<Rightarrow> ''Remote'' | Some a \<Rightarrow> a)"

text \<open>The content of the CDATA section, the same in both renderers.\<close>

definition description_cdata :: "rss_job \<Rightarrow> string" where
  "description_cdata j =
     ''\<newline>        <p><strong>Location:</strong> '' @ escapeXml (location_text j) @
     ''</p>\<newline>        <p><strong>Job ID:</strong> '' @ toString (id_rss j) @
     ''</p>\<newline>      ''"

text \<open>The item of the renderer that stamps the first day of the current year.\<close>

definition item :: "clock \<Rightarrow> rss_job \<Rightarrow> string" where
  \<open>item c j =
     (let title = escapeXml (title_text j);
          jobUrl = baseUrl @ ''?jobId='' @ toString (id_rss j);
          firstDayOfYear = ''1st January '' @ toString (fullYear c)
      in ''\<newline>    <item>\<newline>      <title>'' @ title @
         ''</title>\<newline>      <link>'' @ jobUrl @
         ''</link>\<newline>      <guid isPermaLink="true">'' @ jobUrl @
         ''</guid>\<newline>      <pubDate>'' @ firstDayOfYear @
         ''</pubDate>\<newline>      <description><![CDATA['' @ description_cdata j @
         '']]></description>\<newline>    </item>'')\<close>

text \<open>The item of the renderer that uses the job's published timestamp.\<close>

definition item_published :: "(string \<Rightarrow> string) \<Rightarrow> rss_job \<Rightarrow> string" where
  \<open>item_published toUTCString j =
     (let title = escapeXml (title_text j);
          jobUrl = baseUrl @ ''/'' @ toString (id_rss j);
          published = toUTCString (published_at j)
      in ''\<newline>    <item>\<newline>      <title>'' @ title @
         ''</title>\<newline>      <link>'' @ jobUrl @
         ''</link>\<newline>      <guid isPermaLink="true">'' @ jobUrl @
         ''</guid>\<newline>      <pubDate>'' @ published @
         ''</pubDate>\<newline>      <description><![CDATA['' @ description_cdata j @
         '']]></description>\<newline>    </item>'')\<close>

text \<open>
  The document around the items.  The dash of the channel title is outside the
  Latin-1 range and stands here as the three bytes of its UTF-8 encoding, which is how
  the response carries it.
\<close>

definition channel :: "clock \<Rightarrow> string \<Rightarrow> string" where
  \<open>channel c items =
     ''<?xml version="1.0" encoding="UTF-8"?>\<newline><rss version="2.0">\<newline>  <channel>\<newline>    <title>Chaloner '' @
     [CHR 0xE2, CHR 0x80, CHR 0x94] @
     '' Open Roles</title>\<newline>    <link>'' @ baseUrl @
     ''</link>\<newline>    <description>Explore open opportunities that match your skills and your passion.</description>\<newline>    <language>en-us</language>\<newline>    <lastBuildDate>'' @
     currentDate c @ ''</lastBuildDate>'' @ items @
     ''\<newline>  </channel>\<newline></rss>''\<close>

definition generateRSSFeed :: "clock \<Rightarrow> rss_job list \<Rightarrow> string" where
  "generateRSSFeed c results = channel c (concat (map (item c) results))"

definition generateRSSFeed_published ::
  "(string \<Rightarrow> string) \<Rightarrow> clock \<Rightarrow> rss_job list \<Rightarrow> string" where
  "generateRSSFeed_published toUTCString c results =
     channel c (concat (map (item_published toUTCString) results))"

text \<open>Two jobs of a listing response, and a clock.\<close>

definition research_job :: rss_job where
  "research_job =
     \<lparr>id_rss = 7, title_rss = ''Head of R&D'', macro_address = Some ''Leeds & York'',
      published_at = ''2024-03-05T09:30:00Z''\<rparr>"

definition noon_2025 :: clock where
  "noon_2025 = \<lparr>currentDate = ''Mon, 02 Jun 2025 12:00:00 GMT'', fullYear = 2025\<rparr>"


section \<open>Server routes\<close>

text \<open>
  A route handler reads \<^verbatim>\<open>process.env.BEARER_AUTH\<close> (unset is \<open>None\<close>), calls the
  upstream API through \<^verbatim>\<open>fetch\<close> and answers.  \<open>fetch\<close> is a parameter: it gives, for
  the request the handler builds, either a rejected promise or a status with the body
  that \<^verbatim>\<open>response.json()\<close> parses (\<open>None\<close> when it throws).  A handler's result is
  its response together with the upstream requests it issued.
\<close>

datatype 'j reply = FetchFailed | Replied nat "'j option"

record upstream_request =
  verb :: string
  target :: string
  headers :: "(string \<times> string) list"
  form :: "(string \<times> part) list"

datatype 'j content = Plain string | Rss string | Success 'j | Error string

record 'j response =
  status :: nat
  content :: "'j content"

definition ok :: "nat \<Rightarrow> bool" where
  "ok st \<longleftrightarrow> 200 \<le> st \<and> st \<le> 299"

text \<open>
  The RSS route.  Its two copies differ in the renderer they call (and in what they
  log), so the renderer is a parameter.  Every \<^verbatim>\<open>throw\<close> inside the \<^verbatim>\<open>try\<close> ends in
  the \<^verbatim>\<open>catch\<close>, which answers 500.
\<close>

definition rss_failure :: "'j response" where
  "rss_failure = \<lparr>status = 500, content = Plain ''Failed to generate RSS feed''\<rparr>"

definition rss_route ::
  "(rss_job list \<Rightarrow> string) \<Rightarrow> string option \<Rightarrow> (upstream_request \<Rightarrow> rss_job list reply) \<Rightarrow>
     unit response \<times> upstream_request list" where
  "rss_route render BEARER_AUTH fetch =
     (case BEARER_AUTH of
        None \<Rightarrow> (rss_failure, [])
      | Some token \<Rightarrow>
          if token = [] then (rss_failure, [])
          else
            let request =
              \<lparr>verb = ''GET'',
               target = ''https://app.loxo.co/api/chaloner/jobs?published=true&job_status_id=79157&per_page=100'',
               headers = [(''Accept'', ''application/json''),
                          (''Authorization'', ''Bearer '' @ token)],
               form = []\<rparr>
            in case fetch request of
                 FetchFailed \<Rightarrow> (rss_failure, [request])
               | Replied st parsed \<Rightarrow>
                   if \<not> ok st then (rss_failure, [request])
                   else case parsed of
                          None \<Rightarrow> (rss_failure, [request])
                        | Some jobsResponse \<Rightarrow>
                            (\<lparr>status = 200, content = Rss (render jobsResponse)\<rparr>, [request]))"

definition GET ::
  "string option \<Rightarrow> (upstream_request \<Rightarrow> rss_job list reply) \<Rightarrow> clock \<Rightarrow>
     unit response \<times> upstream_request list" where
  "GET BEARER_AUTH fetch c = rss_route (generateRSSFeed c) BEARER_AUTH fetch"

definition GET_published ::
  "string option \<Rightarrow> (upstream_request \<Rightarrow> rss_job list reply) \<Rightarrow> (string \<Rightarrow> string) \<Rightarrow> clock \<Rightarrow>
     unit response \<times> upstream_request list" where
  "GET_published BEARER_AUTH fetch toUTCString c =
     rss_route (generateRSSFeed_published toUTCString c) BEARER_AUTH fetch"

text \<open>
  The apply routes.  \<^verbatim>\<open>"Bearer " + process.env.BEARER_AUTH!\<close> concatenates whatever the
  variable holds; the \<^verbatim>\<open>!\<close> is a compile-time assertion only, and an unset variable
  prints as \<^verbatim>\<open>undefined\<close>.  \<^verbatim>\<open>formData.get\<close> gives \<^verbatim>\<open>null\<close> for a missing key, which
  \<^verbatim>\<open>append\<close> and \<^verbatim>\<open>+\<close> turn into the text \<^verbatim>\<open>null\<close>.  The submitted form is \<open>None\<close>
  when \<^verbatim>\<open>request.formData()\<close> throws.
\<close>

definition bearer :: "string option \<Rightarrow> string" where
  "bearer BEARER_AUTH =
     ''Bearer '' @ (case BEARER_AUTH of None \<Rightarrow> ''undefined'' | Some token \<Rightarrow> token)"

definition appended :: "part option \<Rightarrow> part" where
  "appended v = (case v of None \<Rightarrow> Text ''null'' | Some p \<Rightarrow> p)"

definition as_text :: "part option \<Rightarrow> string" where
  "as_text v =
     (case v of None \<Rightarrow> ''null'' | Some (Text t) \<Rightarrow> t | Some (Blob f) \<Rightarrow> ''[object File]'')"

definition apply_failure :: "'j response" where
  "apply_failure = \<lparr>status = 500, content = Error ''Failed to apply for job''\<rparr>"

definition forward ::
  "upstream_request \<Rightarrow> (upstream_request \<Rightarrow> 'j reply) \<Rightarrow> 'j response \<times> upstream_request list" where
  "forward request fetch =
     (case fetch request of
        FetchFailed \<Rightarrow> (apply_failure, [request])
      | Replied st parsed \<Rightarrow>
          if \<not> ok st then (apply_failure, [request])
          else case parsed of
                 None \<Rightarrow> (apply_failure, [request])
               | Some result \<Rightarrow> (\<lparr>status = 200, content = Success result\<rparr>, [request]))"

text \<open>Variant A reads the keys the browser form sends and forwards the LinkedIn URL.\<close>

definition POST_A ::
  "string option \<Rightarrow> string \<Rightarrow> (string \<times> part) list option \<Rightarrow> (upstream_request \<Rightarrow> 'j reply) \<Rightarrow>
     'j response \<times> upstream_request list" where
  "POST_A BEARER_AUTH job submitted fetch =
     (let baseURL = ''https://app.loxo.co/api/chaloner/jobs/'' @ job @ ''/apply'';
          BEARER_AUTH_HEADER = bearer BEARER_AUTH
      in case submitted of
           None \<Rightarrow> (apply_failure, [])
         | Some formData \<Rightarrow>
             let email = map_of formData ''Email'';
                 name = as_text (map_of formData ''First-Name'') @ '' '' @
                        as_text (map_of formData ''Last-Name'');
                 phone = map_of formData ''Phone-Number'';
                 linkedin = map_of formData ''Linkedin-URL'';
                 resume = map_of formData ''Resume''
             in forward
                  \<lparr>verb = ''POST'', target = baseURL,
                   headers = [(''Authorization'', BEARER_AUTH_HEADER)],
                   form = [(''email'', appended email), (''name'', Text name),
                           (''phone'', appended phone), (''linkedin'', appended linkedin),
                           (''resume'', appended resume)]\<rparr>
                  fetch)"

text \<open>Variant B reads the upstream's own key names.\<close>

definition POST_B ::
  "string option \<Rightarrow> string \<Rightarrow> (string \<times> part) list option \<Rightarrow> (upstream_request \<Rightarrow> 'j reply) \<Rightarrow>
     'j response \<times> upstream_request list" where
  "POST_B BEARER_AUTH job submitted fetch =
     (let baseURL = ''https://app.loxo.co/api/chaloner/jobs/'' @ job @ ''/apply'';
          BEARER_AUTH_HEADER = bearer BEARER_AUTH
      in case submitted of
           None \<Rightarrow> (apply_failure, [])
         | Some formData \<Rightarrow>
             let email = map_of formData ''email'';
                 name = map_of formData ''name'';
                 phone = map_of formData ''phone'';
                 resume = map_of formData ''resume''
             in forward
                  \<lparr>verb = ''POST'', target = baseURL,
                   headers = [(''Authorization'', BEARER_AUTH_HEADER)],
                   form = [(''email'', appended email), (''name'', appended name),
                           (''phone'', appended phone), (''resume'', appended resume)]\<rparr>
                  fetch)"


text \<open>The list is in descending order of the lower-cased location.\<close>

definition descending_by_location :: "(string \<Rightarrow> string \<Rightarrow> int) \<Rightarrow> job list \<Rightarrow> bool" where
  "descending_by_location cmp js =
     sorted_wrt (\<lambda>a b. cmp (toLowerCase (location b)) (toLowerCase (location a)) \<le> 0) js"

text \<open>The example jobs fetched in the other order.\<close>

definition reversed_listing :: listing where
  "reversed_listing = loadJobs [job2, job1] initial_listing"

text \<open>A form with three additional files pending.\<close>

definition three_pending :: resume_form where
  "three_pending =
     \<lparr>errorBanners = [], successBanners = 0, fetchCalls = [],
      uploadedResumeFile = None, uploadedCoverLetterFile = None,
      uploadedAdditionalFiles = [cv, cv, cv]\<rparr>"


section \<open>Properties of the sort\<close>

lemma mset_insert_by: "mset (insert_by comparator a bs) = add_mset a (mset bs)"
  by (induction bs) auto

lemma mset_array_sort: "mset (array_sort comparator xs) = mset xs"
  by (induction xs) (auto simp: array_sort_def mset_insert_by)

lemma set_insert_by: "set (insert_by comparator a bs) = insert a (set bs)"
  by (induction bs) auto

lemma sorted_insert_by:
  assumes "consistent comparator"
    and "sorted_wrt (\<lambda>a b. comparator a b \<le> 0) bs"
  shows "sorted_wrt (\<lambda>a b. comparator a b \<le> 0) (insert_by comparator a bs)"
  using assms(2)
proof (induction bs)
  case Nil
  then show ?case by simp
next
  case (Cons b bs)
  from assms(1) have tot: "\<And>x y. comparator x y \<le> 0 \<or> comparator y x \<le> 0"
    and tr: "\<And>x y z. comparator x y \<le> 0 \<Longrightarrow> comparator y z \<le> 0 \<Longrightarrow> comparator x z \<le> 0"
    unfolding consistent_def by blast+
  show ?case
  proof (cases "comparator a b \<le> 0")
    case True
    with Cons.prems tr show ?thesis by auto
  next
    case False
    with tot[of a b] have "comparator b a \<le> 0" by simp
    with False Cons show ?thesis by (auto simp: set_insert_by)
  qed
qed

lemma sorted_array_sort:
  "consistent comparator \<Longrightarrow> sorted_wrt (\<lambda>a b. comparator a b \<le> 0) (array_sort comparator xs)"
  by (induction xs) (auto simp: array_sort_def intro: sorted_insert_by)

lemma consistent_sort_comparator:
  "consistent cmp \<Longrightarrow> consistent (sort_comparator cmp by ord)"
  unfolding consistent_def sort_comparator_def Let_def
  by (cases ord) (simp; blast)+

lemma codeunit_compare_total:
  "codeunit_compare x y \<le> 0 \<or> codeunit_compare y x \<le> 0"
  by (induction x y rule: codeunit_compare.induct) auto

lemma codeunit_compare_trans:
  "codeunit_compare x y \<le> 0 \<Longrightarrow> codeunit_compare y z \<le> 0 \<Longrightarrow> codeunit_compare x z \<le> 0"
proof (induction x y arbitrary: z rule: codeunit_compare.induct)
  case 1
  then show ?case by simp
next
  case (2 y ys)
  then show ?case by (cases z) auto
next
  case (3 x xs)
  then show ?case by simp
next
  case (4 x xs y ys)
  show ?case
  proof (cases z)
    case Nil
    with 4 show ?thesis by simp
  next
    case (Cons c cs)
    consider "(of_char x :: nat) < of_char y" | "(of_char y :: nat) < of_char x" | "x = y"
      by (metis linorder_neqE_nat of_char_eq_iff)
    then show ?thesis
    proof cases
      case 1
      with "4.prems" Cons show ?thesis
        by (cases "(of_char y :: nat) < of_char c"; cases "(of_char c :: nat) < of_char y")
           (auto split: if_splits)
    next
      case 2
      with "4.prems" show ?thesis by simp
    next
      case 3
      with "4.prems" "4.IH"[of cs] Cons show ?thesis
        by (cases "(of_char y :: nat) < of_char c"; cases "(of_char c :: nat) < of_char y")
           (auto split: if_splits)
    qed
  qed
qed

lemma consistent_codeunit_compare: "consistent codeunit_compare"
  unfolding consistent_def
  using codeunit_compare_total codeunit_compare_trans by blast


section \<open>Sort state\<close>

lemma renderJobList_fields:
  "jobs (renderJobList s) = jobs s"
  "filteredJobs (renderJobList s) = filteredJobs s"
  "sortBy (renderJobList s) = sortBy s"
  "sortOrder (renderJobList s) = sortOrder s"
  by (simp_all add: renderJobList_def)

lemma sortBy_toggleSort: "sortBy (toggleSort cmp s) = Location"
  by (simp add: toggleSort_def sortJobs_def renderJobList_fields)

lemma sortOrder_toggleSort:
  "sortOrder (toggleSort cmp s) =
     (if sortBy s = Location then (if sortOrder s = Asc then Desc else Asc) else Asc)"
  by (simp add: toggleSort_def sortJobs_def renderJobList_fields)

lemma jobs_toggleSort: "jobs (toggleSort cmp s) = jobs s"
  by (simp add: toggleSort_def sortJobs_def renderJobList_fields)

lemma mset_toggleSort: "mset (filteredJobs (toggleSort cmp s)) = mset (filteredJobs s)"
  by (simp add: toggleSort_def sortJobs_def renderJobList_fields mset_array_sort)

lemma ascending_toggleSort:
  assumes "consistent cmp" and "sortBy s = Location" and "sortOrder s = Desc"
  shows "ascending_by_location cmp (filteredJobs (toggleSort cmp s))"
proof -
  from assms(1) have "consistent (sort_comparator cmp Location Asc)"
    by (rule consistent_sort_comparator)
  then have "sorted_wrt (\<lambda>a b. sort_comparator cmp Location Asc a b \<le> 0)
      (array_sort (sort_comparator cmp Location Asc) (filteredJobs s))"
    by (rule sorted_array_sort)
  then have "ascending_by_location cmp
      (array_sort (sort_comparator cmp Location Asc) (filteredJobs s))"
    by (simp add: ascending_by_location_def sort_comparator_def)
  with assms(2,3) show ?thesis
    by (simp add: toggleSort_def sortJobs_def renderJobList_fields)
qed

lemma filteredJobs_toggleSort:
  "filteredJobs (toggleSort cmp s) =
     array_sort (sort_comparator cmp Location (sortOrder (toggleSort cmp s))) (filteredJobs s)"
  by (simp add: toggleSort_def sortJobs_def renderJobList_fields)

lemma roleListWrap_toggleSort:
  "roleListWrap (toggleSort cmp s) =
     (if filteredJobs (toggleSort cmp s) = [] then NoJobsFound
      else Rows (filteredJobs (toggleSort cmp s)))"
  by (simp add: toggleSort_def renderJobList_def)

lemma ordered_toggleSort:
  assumes "consistent cmp"
  shows "if sortOrder (toggleSort cmp s) = Asc
         then ascending_by_location cmp (filteredJobs (toggleSort cmp s))
         else descending_by_location cmp (filteredJobs (toggleSort cmp s))"
proof -
  let ?ord = "sortOrder (toggleSort cmp s)"
  from assms have "consistent (sort_comparator cmp Location ?ord)"
    by (rule consistent_sort_comparator)
  then have "sorted_wrt (\<lambda>a b. sort_comparator cmp Location ?ord a b \<le> 0)
      (array_sort (sort_comparator cmp Location ?ord) (filteredJobs s))"
    by (rule sorted_array_sort)
  then have "sorted_wrt (\<lambda>a b. sort_comparator cmp Location ?ord a b \<le> 0)
      (filteredJobs (toggleSort cmp s))"
    by (simp only: filteredJobs_toggleSort [symmetric])
  then show ?thesis
    by (cases ?ord)
       (simp_all add: ascending_by_location_def descending_by_location_def sort_comparator_def)
qed

text \<open>
  C8.  Activating the location sort control flips the order between ascending and
  descending when the list is already sorted by location, and otherwise sets the key to
  location with ascending order.  Every activation sorts the shown jobs by location
  in the order it has just set and renders them: the list holds the same jobs and,
  for a consistent collation, is ascending after a reset or a flip to ascending and
  descending after a flip to descending.  From location/ascending, two activations
  give location/ascending again with the list in ascending order of location.
\<close>

theorem toggleSort_flips_or_resets:
  "sortBy (toggleSort cmp s) = Location \<and>
   sortOrder (toggleSort cmp s) =
     (if sortBy s = Location then (if sortOrder s = Asc then Desc else Asc) else Asc) \<and>
   filteredJobs (toggleSort cmp s) =
     array_sort (sort_comparator cmp Location (sortOrder (toggleSort cmp s))) (filteredJobs s) \<and>
   roleListWrap (toggleSort cmp s) =
     (if filteredJobs (toggleSort cmp s) = [] then NoJobsFound
      else Rows (filteredJobs (toggleSort cmp s))) \<and>
   jobs (toggleSort cmp s) = jobs s \<and>
   mset (filteredJobs (toggleSort cmp s)) = mset (filteredJobs s) \<and>
   (consistent cmp \<longrightarrow>
      (if sortOrder (toggleSort cmp s) = Asc
       then ascending_by_location cmp (filteredJobs (toggleSort cmp s))
       else descending_by_location cmp (filteredJobs (toggleSort cmp s)))) \<and>
   (sortBy s = Location \<and> sortOrder s = Asc \<longrightarrow>
      sortBy (toggleSort cmp (toggleSort cmp s)) = Location \<and>
      sortOrder (toggleSort cmp (toggleSort cmp s)) = Asc \<and>
      mset (filteredJobs (toggleSort cmp (toggleSort cmp s))) = mset (filteredJobs s) \<and>
      (consistent cmp \<longrightarrow>
         descending_by_location cmp (filteredJobs (toggleSort cmp s)) \<and>
         ascending_by_location cmp (filteredJobs (toggleSort cmp (toggleSort cmp s)))))"
proof (intro conjI impI)
  show "sortBy (toggleSort cmp s) = Location"
    by (rule sortBy_toggleSort)
  show "sortOrder (toggleSort cmp s) =
     (if sortBy s = Location then (if sortOrder s = Asc then Desc else Asc) else Asc)"
    by (rule sortOrder_toggleSort)
  show "filteredJobs (toggleSort cmp s) =
     array_sort (sort_comparator cmp Location (sortOrder (toggleSort cmp s))) (filteredJobs s)"
    by (rule filteredJobs_toggleSort)
  show "roleListWrap (toggleSort cmp s) =
     (if filteredJobs (toggleSort cmp s) = [] then NoJobsFound
      else Rows (filteredJobs (toggleSort cmp s)))"
    by (rule roleListWrap_toggleSort)
  show "jobs (toggleSort cmp s) = jobs s"
    by (rule jobs_toggleSort)
  show "mset (filteredJobs (toggleSort cmp s)) = mset (filteredJobs s)"
    by (rule mset_toggleSort)
  show "sortBy (toggleSort cmp (toggleSort cmp s)) = Location"
    by (rule sortBy_toggleSort)
  show "mset (filteredJobs (toggleSort cmp (toggleSort cmp s))) = mset (filteredJobs s)"
    by (simp only: mset_toggleSort)
next
  assume "consistent cmp"
  then show "if sortOrder (toggleSort cmp s) = Asc
       then ascending_by_location cmp (filteredJobs (toggleSort cmp s))
       else descending_by_location cmp (filteredJobs (toggleSort cmp s))"
    by (rule ordered_toggleSort)
next
  assume a: "sortBy s = Location \<and> sortOrder s = Asc"
  then have d: "sortOrder (toggleSort cmp s) = Desc"
    by (simp add: sortOrder_toggleSort)
  then show "sortOrder (toggleSort cmp (toggleSort cmp s)) = Asc"
    by (simp add: sortOrder_toggleSort sortBy_toggleSort)
  assume c: "consistent cmp"
  from ordered_toggleSort [OF c, of s] d
  show "descending_by_location cmp (filteredJobs (toggleSort cmp s))"
    by simp
  from c show "ascending_by_location cmp (filteredJobs (toggleSort cmp (toggleSort cmp s)))"
    using d by (intro ascending_toggleSort sortBy_toggleSort)
qed

theorem toggleSort_flips_or_resets_witness:
  "consistent codeunit_compare \<and>
   filteredJobs reversed_listing = [job2, job1] \<and>
   sortBy reversed_listing = Title \<and>
   sortBy (toggleSort codeunit_compare reversed_listing) = Location \<and>
   sortOrder (toggleSort codeunit_compare reversed_listing) = Asc \<and>
   filteredJobs (toggleSort codeunit_compare reversed_listing) = [job1, job2] \<and>
   sortOrder (toggleSort codeunit_compare (toggleSort codeunit_compare reversed_listing)) = Desc \<and>
   filteredJobs (toggleSort codeunit_compare (toggleSort codeunit_compare reversed_listing))
     = [job2, job1] \<and>
   sortOrder (toggleSort codeunit_compare (toggleSort codeunit_compare
     (toggleSort codeunit_compare reversed_listing))) = Asc \<and>
   filteredJobs (toggleSort codeunit_compare (toggleSort codeunit_compare
     (toggleSort codeunit_compare reversed_listing))) = [job1, job2] \<and>
   descending_by_location codeunit_compare [job2, job1] \<and>
   ascending_by_location codeunit_compare [job1, job2] \<and>
   job1 \<noteq> job2"
proof -
  let ?s1 = "toggleSort codeunit_compare reversed_listing"
  let ?s2 = "toggleSort codeunit_compare ?s1"
  let ?s3 = "toggleSort codeunit_compare ?s2"
  have l0: "filteredJobs reversed_listing = [job2, job1] \<and> sortBy reversed_listing = Title \<and>
      job1 \<noteq> job2"
    by code_simp
  have l1: "filteredJobs ?s1 = [job1, job2]" by code_simp
  have l2: "filteredJobs ?s2 = [job2, job1]" by code_simp
  have l3: "filteredJobs ?s3 = [job1, job2]" by code_simp
  have a: "sortBy ?s1 = Location \<and> sortOrder ?s1 = Asc"
    using l0 by (simp add: sortBy_toggleSort sortOrder_toggleSort)
  have d: "sortOrder ?s2 = Desc"
    using a by (simp add: sortOrder_toggleSort)
  from a consistent_codeunit_compare
    toggleSort_flips_or_resets [of codeunit_compare ?s1]
  have "sortOrder ?s3 = Asc \<and>
      descending_by_location codeunit_compare (filteredJobs ?s2) \<and>
      ascending_by_location codeunit_compare (filteredJobs ?s3)"
    by blast
  then have "sortOrder ?s3 = Asc \<and>
      descending_by_location codeunit_compare [job2, job1] \<and>
      ascending_by_location codeunit_compare [job1, job2]"
    by (simp only: l2 l3)
  then show ?thesis
    using a d l0 l1 l2 l3 consistent_codeunit_compare by blast
qed


section \<open>Search\<close>

lemma isWhiteSpace_toLowerCase_char: "isWhiteSpace (toLowerCase_char c) = isWhiteSpace c"
proof -
  have "(of_char c :: nat) < 256" by simp
  then show ?thesis
    unfolding isWhiteSpace_def toLowerCase_char_def Let_def
    by (auto simp: of_char_of)
qed

lemma rev_toLowerCase: "rev (toLowerCase s) = toLowerCase (rev s)"
  by (simp add: toLowerCase_def rev_map)

lemma dropWhile_toLowerCase:
  "dropWhile isWhiteSpace (toLowerCase s) = toLowerCase (dropWhile isWhiteSpace s)"
  by (induction s) (auto simp: toLowerCase_def isWhiteSpace_toLowerCase_char)

lemma trim_toLowerCase: "trim (toLowerCase s) = toLowerCase (trim s)"
  by (simp add: trim_def dropWhile_toLowerCase rev_toLowerCase)

lemma trim_eq_Nil: "trim s = [] \<longleftrightarrow> list_all isWhiteSpace s"
proof
  assume "trim s = []"
  then have a: "\<forall>x\<in>set (dropWhile isWhiteSpace s). isWhiteSpace x"
    by (simp add: trim_def dropWhile_eq_Nil_conv)
  have "dropWhile isWhiteSpace s = []"
  proof (rule ccontr)
    assume n: "dropWhile isWhiteSpace s \<noteq> []"
    then have "\<not> isWhiteSpace (hd (dropWhile isWhiteSpace s))" by (rule hd_dropWhile)
    with a n show False by simp
  qed
  then show "list_all isWhiteSpace s"
    by (simp add: dropWhile_eq_Nil_conv list_all_iff)
next
  assume "list_all isWhiteSpace s"
  then have d: "dropWhile isWhiteSpace s = []"
    by (simp add: dropWhile_eq_Nil_conv list_all_iff)
  show "trim s = []"
    unfolding trim_def d by simp
qed

lemma list_all_isWhiteSpace_toLowerCase:
  "list_all isWhiteSpace (toLowerCase s) = list_all isWhiteSpace s"
  by (simp add: toLowerCase_def list_all_iff isWhiteSpace_toLowerCase_char)

lemma includes_str_iff_sublist: "includes_str s t \<longleftrightarrow> sublist t s"
  by (induction s) (auto simp: sublist_Cons_right)

lemma job_matches_spec:
  "job_matches (trim (toLowerCase searchTerm)) = spec_search_match (trim searchTerm)"
  by (rule ext) (simp add: job_matches_def spec_search_match_def contains_ci_def
      includes_str_iff_sublist trim_toLowerCase)

lemma filteredJobs_filterJobs:
  "filteredJobs (filterJobs searchTerm s) =
     (if trim (toLowerCase searchTerm) = [] then jobs s
      else filter (job_matches (trim (toLowerCase searchTerm))) (jobs s))"
  by (simp add: filterJobs_def Let_def renderJobList_fields)

lemma filterJobs_fields:
  "jobs (filterJobs searchTerm s) = jobs s"
  "sortBy (filterJobs searchTerm s) = sortBy s"
  "sortOrder (filterJobs searchTerm s) = sortOrder s"
  by (simp_all add: filterJobs_def Let_def renderJobList_fields)

lemma spec_search_match_Nil: "spec_search_match [] j"
  by (simp add: spec_search_match_def contains_ci_def toLowerCase_def)

lemma filteredJobs_filterJobs_spec:
  "filteredJobs (filterJobs searchTerm s) = filter (spec_search_match (trim searchTerm)) (jobs s)"
proof (cases "trim (toLowerCase searchTerm) = []")
  case True
  then have "trim searchTerm = []"
    by (simp add: trim_eq_Nil list_all_isWhiteSpace_toLowerCase)
  with True show ?thesis
    by (simp add: filteredJobs_filterJobs spec_search_match_Nil)
next
  case False
  then show ?thesis
    by (simp add: filteredJobs_filterJobs job_matches_spec)
qed

text \<open>
  C3 as the specification states it: an empty search term gives the full list in its
  last-sorted order.  It fails on the example list: sorted by location in descending
  order the list is job 2, job 1; the empty search that follows shows job 1, job 2,
  the order of the response, although the sort state is still location/descending.
\<close>

theorem empty_search_loses_sort_order:
  "filteredJobs (toggleSort codeunit_compare (toggleSort codeunit_compare example_listing))
     = [job2, job1] \<and>
   filteredJobs (filterJobs []
       (toggleSort codeunit_compare (toggleSort codeunit_compare example_listing)))
     = [job1, job2] \<and>
   sortBy (filterJobs []
       (toggleSort codeunit_compare (toggleSort codeunit_compare example_listing))) = Location \<and>
   sortOrder (filterJobs []
       (toggleSort codeunit_compare (toggleSort codeunit_compare example_listing))) = Desc \<and>
   [job2, job1] \<noteq> [job1, job2]"
  by code_simp

text \<open>
  C3, amended.  Filtering with an empty or whitespace-only search term yields the full
  last-fetched list in the order it was fetched; the sort key and order are left as
  they were and are not applied to the list again.
\<close>

theorem filterJobs_blank_term:
  assumes "list_all isWhiteSpace searchTerm"
  shows "filteredJobs (filterJobs searchTerm s) = jobs s \<and>
         jobs (filterJobs searchTerm s) = jobs s \<and>
         sortBy (filterJobs searchTerm s) = sortBy s \<and>
         sortOrder (filterJobs searchTerm s) = sortOrder s"
proof -
  from assms have "trim (toLowerCase searchTerm) = []"
    by (simp add: trim_eq_Nil list_all_isWhiteSpace_toLowerCase)
  then show ?thesis
    by (simp add: filteredJobs_filterJobs filterJobs_fields)
qed

theorem filterJobs_blank_term_witness:
  "list_all isWhiteSpace ''  '' \<and>
   filteredJobs (filterJobs ''  ''
       (toggleSort codeunit_compare (toggleSort codeunit_compare example_listing)))
     = jobs example_listing"
proof -
  have w: "list_all isWhiteSpace ''  ''"
    by (simp add: isWhiteSpace_def)
  from filterJobs_blank_term [OF w,
      of "toggleSort codeunit_compare (toggleSort codeunit_compare example_listing)"]
  show ?thesis
    using w by (simp add: jobs_toggleSort)
qed

text \<open>
  C9 as the specification states it: the filtered list consists exactly of the jobs
  that contain the search term as a case-insensitive substring.  It fails for a term
  with a trailing blank: no field of the example jobs contains \<open>''leeds ''\<close>, yet
  the search shows job 1, because the term is trimmed before it is compared.
\<close>

theorem search_term_is_trimmed:
  "filteredJobs (filterJobs ''leeds '' example_listing) = [job1] \<and>
   filter (spec_search_match ''leeds '') (jobs example_listing) = []"
  by code_simp


lemma loadJobs_fields:
  "jobs (loadJobs response s) = response"
  "filteredJobs (loadJobs response s) = response"
  "sortBy (loadJobs response s) = sortBy s"
  "sortOrder (loadJobs response s) = sortOrder s"
  by (simp_all add: loadJobs_def renderJobList_fields)

lemma trim_Nil: "trim [] = []"
  by (simp add: trim_def)

lemma filter_spec_search_match_Nil: "filter (spec_search_match []) js = js"
  by (induction js) (simp_all add: spec_search_match_Nil)

lemma run_snoc: "run cmp (evs @ [e]) = handle cmp (run cmp evs) e"
  by (simp add: run_def)

lemma current_term_snoc: "current_term (evs @ [e]) = term_after (current_term evs) e"
  by (simp add: current_term_def)

lemma run_reflects_current_term:
  "mset (filteredJobs (run cmp evs)) =
   mset (filter (spec_search_match (trim (current_term evs))) (jobs (run cmp evs)))"
proof (induction evs rule: rev_induct)
  case Nil
  show ?case
    by (simp add: run_def current_term_def initial_listing_def)
next
  case (snoc e evs)
  show ?case
  proof (cases e)
    case (JobsLoaded response)
    then show ?thesis
      by (simp add: run_snoc current_term_snoc loadJobs_fields trim_Nil
          filter_spec_search_match_Nil)
  next
    case (SearchInput searchTerm)
    then show ?thesis
      by (simp add: run_snoc current_term_snoc filteredJobs_filterJobs_spec filterJobs_fields)
  next
    case LocationSortClick
    with snoc.IH show ?thesis
      by (simp add: run_snoc current_term_snoc mset_toggleSort jobs_toggleSort)
  qed
qed

text \<open>
  C9, amended.  A search rebuilds \<open>filteredJobs\<close> from the last fetched list alone,
  whatever it held before: it is then, in fetch order, exactly the jobs whose title,
  company or location contains the trimmed search term as a case-insensitive
  substring.  A sort change reorders the jobs \<open>filteredJobs\<close> holds and neither adds
  nor drops one.  So after any sequence of loads, searches and sort changes
  \<open>filteredJobs\<close> holds exactly the jobs of the last fetched list that match the
  trimmed current term, and is a subset of that list.
\<close>

theorem filteredJobs_rederived:
  "filteredJobs (filterJobs searchTerm s) =
     filter (spec_search_match (trim searchTerm)) (jobs s) \<and>
   filteredJobs (filterJobs searchTerm (s\<lparr>filteredJobs := old\<rparr>)) =
     filteredJobs (filterJobs searchTerm s) \<and>
   mset (filteredJobs (toggleSort cmp s)) = mset (filteredJobs s) \<and>
   mset (filteredJobs (run cmp evs)) =
     mset (filter (spec_search_match (trim (current_term evs))) (jobs (run cmp evs))) \<and>
   set (filteredJobs (run cmp evs)) \<subseteq> set (jobs (run cmp evs))"
proof (intro conjI)
  show "filteredJobs (filterJobs searchTerm s) =
      filter (spec_search_match (trim searchTerm)) (jobs s)"
    by (rule filteredJobs_filterJobs_spec)
  show "filteredJobs (filterJobs searchTerm (s\<lparr>filteredJobs := old\<rparr>)) =
      filteredJobs (filterJobs searchTerm s)"
    by (simp add: filteredJobs_filterJobs)
  show "mset (filteredJobs (toggleSort cmp s)) = mset (filteredJobs s)"
    by (rule mset_toggleSort)
  show m: "mset (filteredJobs (run cmp evs)) =
      mset (filter (spec_search_match (trim (current_term evs))) (jobs (run cmp evs)))"
    by (rule run_reflects_current_term)
  have "set (filteredJobs (run cmp evs)) =
      set (filter (spec_search_match (trim (current_term evs))) (jobs (run cmp evs)))"
    using m by (rule mset_eq_setD)
  then show "set (filteredJobs (run cmp evs)) \<subseteq> set (jobs (run cmp evs))"
    by auto
qed

theorem filteredJobs_rederived_witness:
  "filteredJobs (filterJobs ''leeds '' example_listing) = [job1] \<and>
   mset (filteredJobs (run codeunit_compare
       [JobsLoaded [job1, job2], SearchInput ''ACME '', LocationSortClick, LocationSortClick]))
     = mset [job1, job2]"
proof -
  let ?evs = "[JobsLoaded [job1, job2], SearchInput ''ACME '', LocationSortClick, LocationSortClick]"
  have a: "filter (spec_search_match (trim ''leeds '')) (jobs example_listing) = [job1]"
    by code_simp
  have b: "filter (spec_search_match (trim (current_term ?evs)))
      (jobs (run codeunit_compare ?evs)) = [job1, job2]"
    by code_simp
  from filteredJobs_rederived [of "''leeds ''" example_listing "[]" codeunit_compare ?evs]
  show ?thesis
    by (simp only: a b)
qed


section \<open>File validation\<close>

lemma validateFile_isValid:
  "isValid (validateFile f) \<longleftrightarrow>
     file_type f \<in> set ALLOWED_FILE_TYPES \<and> file_size f \<le> MAX_FILE_SIZE"
  by (auto simp: validateFile_def Let_def split: if_splits)

lemma validateFile_message:
  "\<not> isValid (validateFile f) \<Longrightarrow> join ''. '' (errors (validateFile f)) \<noteq> []"
  by (auto simp: validateFile_def Let_def split: if_splits)

lemma validateFile_form_eq: "validateFile_form f = validateFile f"
  by (simp add: validateFile_form_def validateFile_def)

text \<open>
  C6.  A file whose MIME type is outside the allow-list is rejected whatever its size,
  and a file larger than 5 MB is rejected whatever its type: the validator calls it
  invalid, none of the three upload handlers adds it to the pending files, and each
  handler shows exactly one, non-empty, error banner.
\<close>

theorem rejected_file_not_added:
  assumes "file_type f \<notin> set ALLOWED_FILE_TYPES \<or> file_size f > 5 * 1024 * 1024"
  shows "\<not> isValid (validateFile f) \<and>
         uploadedFile (handleFileUpload_unified f u) = uploadedFile u \<and>
         errorBanners (handleFileUpload_unified f u)
           = errorBanners u @ [join ''. '' (errors (validateFile f))] \<and>
         uploadedFile (handleFileUpload_form f u) = uploadedFile u \<and>
         errorBanners (handleFileUpload_form f u)
           = errorBanners u @ [join ''. '' (errors (validateFile f))] \<and>
         uploadedResumeFile (handleFileUpload f inputName s) = uploadedResumeFile s \<and>
         uploadedCoverLetterFile (handleFileUpload f inputName s) = uploadedCoverLetterFile s \<and>
         uploadedAdditionalFiles (handleFileUpload f inputName s) = uploadedAdditionalFiles s \<and>
         errorBanners (handleFileUpload f inputName s)
           = errorBanners s @ [join ''. '' (errors (validateFile f))] \<and>
         join ''. '' (errors (validateFile f)) \<noteq> []"
proof -
  from assms have inv: "\<not> isValid (validateFile f)"
    by (auto simp: validateFile_isValid MAX_FILE_SIZE_def)
  then have u: "handleFileUpload_unified f u = showError (join ''. '' (errors (validateFile f))) u"
    by (simp add: handleFileUpload_unified_def Let_def)
  from inv have u': "handleFileUpload_form f u = showError (join ''. '' (errors (validateFile f))) u"
    by (simp add: handleFileUpload_form_def validateFile_form_eq Let_def)
  from inv have r: "handleFileUpload f inputName s
      = showError (join ''. '' (errors (validateFile f))) s"
    by (simp add: handleFileUpload_def Let_def)
  show ?thesis
    unfolding u u' r using inv validateFile_message[OF inv]
    by (simp add: showError_def)
qed

theorem rejected_file_not_added_witness:
  "uploadedResumeFile (handleFileUpload setup_exe ''Resume'' fresh_resume_form) = None \<and>
   errorBanners (handleFileUpload setup_exe ''Resume'' fresh_resume_form)
     = [''Please upload a PDF, DOC, DOCX, or TXT file''] \<and>
   uploadedResumeFile (handleFileUpload big_pdf ''Resume'' fresh_resume_form) = None \<and>
   errorBanners (handleFileUpload big_pdf ''Resume'' fresh_resume_form)
     = [''File size must be less than 5MB'']"
proof -
  have a: "file_type setup_exe \<notin> set ALLOWED_FILE_TYPES \<or> file_size setup_exe > 5 * 1024 * 1024"
    by (simp add: setup_exe_def ALLOWED_FILE_TYPES_def)
  have b: "file_type big_pdf \<notin> set ALLOWED_FILE_TYPES \<or> file_size big_pdf > 5 * 1024 * 1024"
    by (simp add: big_pdf_def)
  have ea: "join ''. '' (errors (validateFile setup_exe))
      = ''Please upload a PDF, DOC, DOCX, or TXT file''"
    by (simp add: validateFile_def setup_exe_def ALLOWED_FILE_TYPES_def MAX_FILE_SIZE_def)
  have eb: "join ''. '' (errors (validateFile big_pdf)) = ''File size must be less than 5MB''"
    by (simp add: validateFile_def big_pdf_def ALLOWED_FILE_TYPES_def MAX_FILE_SIZE_def)
  from rejected_file_not_added [OF a, of fresh_single_form "''Resume''" fresh_resume_form]
    rejected_file_not_added [OF b, of fresh_single_form "''Resume''" fresh_resume_form]
  show ?thesis
    by (simp add: ea eb fresh_resume_form_def)
qed

text \<open>
  C10 as stated: a file of exactly \<open>5 * 1024 * 1024\<close> bytes with an allowed MIME
  type passes validation and is added to the pending files.  It passes validation,
  but in \<^verbatim>\<open>resume-form.ts\<close> it is not always added: offered as an additional file
  while three are pending, it is turned away with the message of the cap, and the
  pending files stay as they were.
\<close>

theorem boundary_file_refused_by_cap:
  "file_type boundary_pdf \<in> set ALLOWED_FILE_TYPES \<and>
   file_size boundary_pdf = 5 * 1024 * 1024 \<and>
   validateFile boundary_pdf = \<lparr>isValid = True, errors = []\<rparr> \<and>
   uploadedAdditionalFiles three_pending = [cv, cv, cv] \<and>
   uploadedAdditionalFiles (handleFileUpload boundary_pdf ''additional_files'' three_pending)
     = [cv, cv, cv] \<and>
   uploadedResumeFile (handleFileUpload boundary_pdf ''additional_files'' three_pending) = None \<and>
   uploadedCoverLetterFile (handleFileUpload boundary_pdf ''additional_files'' three_pending)
     = None \<and>
   errorBanners (handleFileUpload boundary_pdf ''additional_files'' three_pending)
     = [''You can only upload up to 3 additional files.''] \<and>
   boundary_pdf \<noteq> cv"
proof -
  have v: "validateFile boundary_pdf = \<lparr>isValid = True, errors = []\<rparr>"
    by (simp add: validateFile_def boundary_pdf_def ALLOWED_FILE_TYPES_def MAX_FILE_SIZE_def)
  have h: "handleFileUpload boundary_pdf ''additional_files'' three_pending
      = showError ''You can only upload up to 3 additional files.'' three_pending"
    by (simp add: handleFileUpload_def v three_pending_def)
  show ?thesis
    unfolding h
    by (simp add: v showError_def three_pending_def)
       (simp add: boundary_pdf_def cv_def ALLOWED_FILE_TYPES_def)
qed

text \<open>
  C10, amended.  A file of exactly \<open>5 * 1024 * 1024\<close> bytes with an allowed MIME
  type passes both validators, since the size check rejects only what is strictly
  larger.  The single-resume handlers store it, and the three-way handler of
  \<^verbatim>\<open>resume-form.ts\<close> stores it as the resume, as the cover letter, or, while fewer
  than three additional files are pending, as an additional file; with three pending
  it shows the message of the cap and adds nothing.
\<close>

theorem boundary_file_accepted:
  assumes "file_type f \<in> set ALLOWED_FILE_TYPES" and "file_size f = 5 * 1024 * 1024"
  shows "validateFile f = \<lparr>isValid = True, errors = []\<rparr> \<and>
         validateFile_form f = \<lparr>isValid = True, errors = []\<rparr> \<and>
         handleFileUpload_form f u = u\<lparr>uploadedFile := Some f\<rparr> \<and>
         handleFileUpload_unified f u = u\<lparr>uploadedFile := Some f\<rparr> \<and>
         handleFileUpload f ''Resume'' s = s\<lparr>uploadedResumeFile := Some f\<rparr> \<and>
         handleFileUpload f ''cover_letter'' s = s\<lparr>uploadedCoverLetterFile := Some f\<rparr> \<and>
         (inputName \<noteq> ''Resume'' \<and> inputName \<noteq> ''cover_letter'' \<and>
          length (uploadedAdditionalFiles s) < 3 \<longrightarrow>
            handleFileUpload f inputName s
              = s\<lparr>uploadedAdditionalFiles := uploadedAdditionalFiles s @ [f]\<rparr>) \<and>
         (inputName \<noteq> ''Resume'' \<and> inputName \<noteq> ''cover_letter'' \<and>
          \<not> length (uploadedAdditionalFiles s) < 3 \<longrightarrow>
            handleFileUpload f inputName s
              = showError ''You can only upload up to 3 additional files.'' s)"
proof -
  from assms have v: "validateFile f = \<lparr>isValid = True, errors = []\<rparr>"
    by (simp add: validateFile_def MAX_FILE_SIZE_def)
  then have v': "validateFile_form f = \<lparr>isValid = True, errors = []\<rparr>"
    by (simp add: validateFile_form_eq)
  show ?thesis
    by (simp add: v v' handleFileUpload_form_def handleFileUpload_unified_def
        handleFileUpload_def)
qed

theorem boundary_file_accepted_witness:
  "file_size boundary_pdf = 5242880 \<and>
   isValid (validateFile boundary_pdf) \<and>
   uploadedFile (handleFileUpload_form boundary_pdf fresh_single_form) = Some boundary_pdf \<and>
   uploadedResumeFile (handleFileUpload boundary_pdf ''Resume'' fresh_resume_form)
     = Some boundary_pdf \<and>
   uploadedAdditionalFiles (handleFileUpload boundary_pdf ''additional_files'' fresh_resume_form)
     = [boundary_pdf]"
proof -
  have a: "file_type boundary_pdf \<in> set ALLOWED_FILE_TYPES"
    by (simp add: boundary_pdf_def ALLOWED_FILE_TYPES_def)
  have b: "file_size boundary_pdf = 5 * 1024 * 1024"
    by (simp add: boundary_pdf_def)
  from boundary_file_accepted [OF a b, of fresh_single_form fresh_resume_form "''additional_files''"]
  show ?thesis
    using b by (simp add: fresh_resume_form_def)
qed


section \<open>Form validation and submission\<close>

lemma validateForm_unified_consent:
  "\<not> consent d \<Longrightarrow>
     ''You must consent to be contacted about job opportunities'' \<in> set (validateForm_unified d)"
  by (simp add: validateForm_unified_def)

lemma validateForm_listing_consent:
  "\<not> consent d \<Longrightarrow>
     ''You must consent to be contacted about job opportunities'' \<in> set (validateForm_listing d)"
  by (simp add: validateForm_listing_def)

lemma handleFormSubmit_unified_no_consent:
  assumes "\<not> consent_checked i"
  shows "fetchCalls (handleFormSubmit_unified i reply s) = fetchCalls s"
proof -
  from assms have "\<not> consent (collectFormData_unified i s)"
    by (simp add: collectFormData_unified_def)
  then have "validateForm_unified (collectFormData_unified i s) \<noteq> []"
    using validateForm_unified_consent by fastforce
  then have "\<not> isValid (validateFormData_unified (collectFormData_unified i s))"
    by (simp add: validateFormData_unified_def Let_def)
  then show ?thesis
    by (simp add: handleFormSubmit_unified_def Let_def showError_def)
qed

lemma fetchCalls_submitForm:
  "fetchCalls (submitForm d reply s) =
     fetchCalls s @ [\<lparr>http_method = ''POST'', url = ''http://localhost:3000/api/people'',
                      body = formDataObj d\<rparr>]"
  by (simp add: submitForm_def Let_def handleSuccessfulSubmission_def
      removeAllUploadedFiles_def showSuccess_def showError_def
      split: outcome.splits bool.splits option.splits)

lemma handleFormSubmit_invalid:
  "\<not> isValid (validateFormData (collectFormData i s)) \<Longrightarrow>
     fetchCalls (handleFormSubmit i reply s) = fetchCalls s \<and>
     errorBanners (handleFormSubmit i reply s) =
       errorBanners s @ [join ''. '' (errors (validateFormData (collectFormData i s)))]"
  by (simp add: handleFormSubmit_def Let_def showError_def)

lemma handleFormSubmit_valid:
  "isValid (validateFormData (collectFormData i s)) \<Longrightarrow>
     fetchCalls (handleFormSubmit i reply s) =
       fetchCalls s @ [\<lparr>http_method = ''POST'', url = ''http://localhost:3000/api/people'',
                        body = formDataObj (collectFormData i s)\<rparr>]"
  by (simp add: handleFormSubmit_def Let_def fetchCalls_submitForm)

lemma missing_field_invalid:
  assumes "trim (First_Name i) = [] \<or> trim (Last_Name i) = [] \<or> trim (Email i) = [] \<or>
           trim (Phone_Number i) = [] \<or> uploadedResumeFile s = None"
  shows "\<not> isValid (validateFormData (collectFormData i s))"
  using assms
  by (auto simp: validateFormData_def Let_def validateForm_def collectFormData_def)

lemma missing_email_message:
  "trim (Email i) = [] \<Longrightarrow>
     ''Email is required'' \<in> set (errors (validateFormData (collectFormData i s)))"
  by (simp add: validateFormData_def Let_def validateForm_def collectFormData_def)

lemma validateEmail_ada: "validateEmail ''ada@example.com''"
  by (simp add: validateEmail_def EMAIL_REGEX_def Plus_def not_space_or_at_def isWhiteSpace_def)

lemma with_resume_eq:
  "with_resume =
     \<lparr>errorBanners = [], successBanners = 0, fetchCalls = [],
      uploadedResumeFile = Some cv, uploadedCoverLetterFile = None,
      uploadedAdditionalFiles = []\<rparr>"
proof -
  have "isValid (validateFile cv)"
    by (simp add: validateFile_isValid cv_def ALLOWED_FILE_TYPES_def MAX_FILE_SIZE_def)
  then show ?thesis
    by (simp add: with_resume_def handleFileUpload_def Let_def fresh_resume_form_def)
qed

lemma collect_no_consent:
  "collectFormData no_consent with_resume =
     \<lparr>firstName = ''Ada'', lastName = ''Lovelace'', email = ''ada@example.com'',
      phoneNumber = ''020 7946 0000'', linkedinUrl = [], consent = False,
      resume = Some cv, coverLetter = None, additionalFiles = [],
      desiredSalary = [], desiredAdditionalCompensation = []\<rparr>"
  by (simp add: with_resume_eq collectFormData_def no_consent_def)

lemma validateForm_no_consent: "validateForm (collectFormData no_consent with_resume) = []"
  unfolding collect_no_consent
  by (simp add: validateForm_def validateEmail_ada trim_def isWhiteSpace_def)

text \<open>
  C2.  The specification makes consent a required field.  The validators of the
  unified system and of the listing manager report a missing consent (the two lemmas
  above); \<^verbatim>\<open>validateForm\<close> of \<^verbatim>\<open>resume-form.ts\<close> does not look at the flag.  For an
  applicant who filled in every field and attached a resume but did not consent, it
  returns no error, where the unified system's validator returns the consent message.
\<close>

theorem validateForm_ignores_consent:
  "consent (collectFormData no_consent with_resume) = False \<and>
   validateForm (collectFormData no_consent with_resume) = [] \<and>
   validateForm_unified (collectFormData no_consent with_resume)
     = [''You must consent to be contacted about job opportunities'']"
proof (intro conjI)
  show "consent (collectFormData no_consent with_resume) = False"
    by (simp add: collect_no_consent)
  show "validateForm (collectFormData no_consent with_resume) = []"
    by (rule validateForm_no_consent)
  have c: "\<not> consent (collectFormData no_consent with_resume)"
    by (simp add: collect_no_consent)
  have "validateForm_unified d = validateForm d @
      (if \<not> consent d then [''You must consent to be contacted about job opportunities'']
       else [])" for d
    by (simp add: validateForm_unified_def validateForm_def)
  with c show "validateForm_unified (collectFormData no_consent with_resume)
      = [''You must consent to be contacted about job opportunities'']"
    by (simp add: validateForm_no_consent)
qed

text \<open>
  C7.  In \<^verbatim>\<open>resume-form.ts\<close> a submission with an empty first name, last name, email,
  phone number or no resume issues no request, an empty email puts
  \<open>''Email is required''\<close> in the error list, and a submission that passes validation
  issues exactly one POST (the lemmas above).  Consent, which the specification also
  requires, is not checked: the applicant who did not consent is submitted, with one
  POST, whatever the server then answers.
\<close>

theorem submit_without_consent_posts:
  "consent_checked no_consent = False \<and>
   fetchCalls (handleFormSubmit no_consent reply with_resume) =
     [\<lparr>http_method = ''POST'', url = ''http://localhost:3000/api/people'',
       body = formDataObj (collectFormData no_consent with_resume)\<rparr>]"
proof -
  have "isValid (validateFormData (collectFormData no_consent with_resume))"
    by (simp add: validateFormData_def Let_def validateForm_no_consent)
       (simp add: collect_no_consent)
  from handleFormSubmit_valid [OF this, of reply]
  have "fetchCalls (handleFormSubmit no_consent reply with_resume) =
      fetchCalls with_resume @
        [\<lparr>http_method = ''POST'', url = ''http://localhost:3000/api/people'',
          body = formDataObj (collectFormData no_consent with_resume)\<rparr>]" .
  moreover have "fetchCalls with_resume = []"
    by (simp add: with_resume_eq)
  ultimately show ?thesis
    by (simp add: no_consent_def)
qed


section \<open>Escaping in the feed\<close>

lemma replace_all_Nil: "replace_all c r [] = []"
  by (simp add: replace_all_def)

lemma replace_all_append: "replace_all c r (xs @ ys) = replace_all c r xs @ replace_all c r ys"
  by (simp add: replace_all_def)

lemma escapeXml_Nil: "escapeXml [] = []"
  by (simp add: escapeXml_def replace_all_Nil)

lemma escapeXml_append: "escapeXml (xs @ ys) = escapeXml xs @ escapeXml ys"
  by (simp add: escapeXml_def replace_all_append)

lemma escapeXml_single:
  "escapeXml [c] =
     (if c = CHR ''&'' then ''&amp;''
      else if c = CHR ''<'' then ''&lt;''
      else if c = CHR ''>'' then ''&gt;''
      else if c = CHR 0x22 then ''&quot;''
      else if c = CHR 0x27 then ''&apos;''
      else [c])"
  by (simp add: escapeXml_def replace_all_def)

lemma escapeXml_Cons: "escapeXml (c # cs) = escapeXml [c] @ escapeXml cs"
  using escapeXml_append [of "[c]" cs] by simp










lemma escapeXml_reserved:
  "CHR ''<'' \<notin> set (escapeXml s)" "CHR ''>'' \<notin> set (escapeXml s)"
  "CHR 0x22 \<notin> set (escapeXml s)" "CHR 0x27 \<notin> set (escapeXml s)"
proof -
  have "CHR ''<'' \<notin> set (escapeXml s) \<and> CHR ''>'' \<notin> set (escapeXml s) \<and>
      CHR 0x22 \<notin> set (escapeXml s) \<and> CHR 0x27 \<notin> set (escapeXml s)"
  proof (induction s)
    case Nil
    show ?case by (simp add: escapeXml_Nil)
  next
    case (Cons c s)
    then show ?case
      by (simp add: escapeXml_Cons [of c s] escapeXml_single)
  qed
  then show "CHR ''<'' \<notin> set (escapeXml s)" "CHR ''>'' \<notin> set (escapeXml s)"
    "CHR 0x22 \<notin> set (escapeXml s)" "CHR 0x27 \<notin> set (escapeXml s)"
    by simp_all
qed

lemma toString_digits: "set (toString n) \<subseteq> set ''0123456789''"
proof (induction n rule: toString.induct)
  case (1 n)
  have d: "''0123456789'' ! k \<in> set ''0123456789''" if "k < 10" for k
    using that by (intro nth_mem) simp
  show ?case
  proof (cases "n < 10")
    case True
    with d[of n] show ?thesis by (subst toString.simps) simp
  next
    case False
    with 1 d[of "n mod 10"] show ?thesis by (subst toString.simps) simp
  qed
qed

lemma toString_plain:
  "CHR ''<'' \<notin> set (toString n)" "CHR '']'' \<notin> set (toString n)"
  using toString_digits [of n] by auto

lemma text_after_skip:
  "m \<noteq> [] \<Longrightarrow> hd m \<notin> set xs \<Longrightarrow> text_after m (xs @ ys) = text_after m ys"
  by (induction xs) (auto simp: prefix_def neq_Nil_conv)

lemma text_before_skip:
  assumes "m \<noteq> []" and "hd m \<notin> set xs"
  shows "text_before m (xs @ ys) = map_option ((@) xs) (text_before m ys)"
  using assms(2)
proof (induction xs)
  case Nil
  show ?case by (cases "text_before m ys") simp_all
next
  case (Cons a xs)
  with assms(1) have "\<not> prefix m (a # xs @ ys)"
    by (auto simp: prefix_def neq_Nil_conv)
  with Cons show ?case
    by (cases "text_before m ys") simp_all
qed



lemma item_pubDate:
  "between ''<pubDate>'' ''</pubDate>'' (item c j) = Some (''1st January '' @ toString (fullYear c))"
  by (simp add: between_def item_def Let_def baseUrl_def text_after_skip text_before_skip
      escapeXml_reserved toString_plain)

lemma item_published_pubDate:
  "CHR ''<'' \<notin> set (toUTCString (published_at j)) \<Longrightarrow>
   between ''<pubDate>'' ''</pubDate>'' (item_published toUTCString j)
     = Some (toUTCString (published_at j))"
  by (simp add: between_def item_published_def Let_def baseUrl_def text_after_skip
      text_before_skip escapeXml_reserved toString_plain)









text \<open>
  C4.  The specification asks for the job's own published timestamp in \<open>pubDate\<close>
  and calls the year-start placeholder a defect.  The renderer that calls
  \<^verbatim>\<open>toUTCString\<close> on \<^verbatim>\<open>published_at\<close> does so (lemma \<open>item_published_pubDate\<close>); the
  other renderer never reads \<^verbatim>\<open>published_at\<close>: for every job and clock its
  \<open>pubDate\<close> is the first of January of the current year.
\<close>

theorem pubDate_is_placeholder:
  "between ''<pubDate>'' ''</pubDate>'' (item c j) = Some (''1st January '' @ toString (fullYear c)) \<and>
   between ''<pubDate>'' ''</pubDate>'' (item noon_2025 research_job) = Some ''1st January 2025'' \<and>
   published_at research_job = ''2024-03-05T09:30:00Z''"
proof -
  have "toString 2025 = ''2025''"
    by (simp add: toString.simps)
  then show ?thesis
    by (simp add: item_pubDate noon_2025_def research_job_def)
qed


section \<open>Bearer token\<close>

lemma GET_without_token:
  "BEARER_AUTH = None \<or> BEARER_AUTH = Some [] \<Longrightarrow>
     GET BEARER_AUTH fetch c = (\<lparr>status = 500, content = Plain ''Failed to generate RSS feed''\<rparr>, [])"
  by (auto simp: GET_def rss_route_def rss_failure_def)

lemma GET_published_without_token:
  "BEARER_AUTH = None \<or> BEARER_AUTH = Some [] \<Longrightarrow>
     GET_published BEARER_AUTH fetch toUTCString c
       = (\<lparr>status = 500, content = Plain ''Failed to generate RSS feed''\<rparr>, [])"
  by (auto simp: GET_published_def rss_route_def rss_failure_def)

lemma requests_forward: "snd (forward request fetch) = [request]"
  by (simp add: forward_def split: reply.splits option.splits)

text \<open>
  C5.  Both copies of the RSS route answer 500 without calling the upstream API when
  the token is unset (the two lemmas above).  The apply routes do not look at it:
  with the token unset, either variant sends the applicant's form upstream under
  \<open>''Bearer undefined''\<close>, whatever the upstream then answers, and when the
  upstream accepts the request the route answers 200 with \<open>success\<close>.
\<close>

theorem apply_route_ignores_missing_token:
  "map headers (snd (POST_A None job (Some formData) fetch))
     = [[(''Authorization'', ''Bearer undefined'')]] \<and>
   map headers (snd (POST_B None job (Some formData) fetch))
     = [[(''Authorization'', ''Bearer undefined'')]] \<and>
   fst (POST_A None job (Some formData) (\<lambda>request. Replied 200 (Some result)))
     = \<lparr>status = 200, content = Success result\<rparr> \<and>
   fst (POST_B None job (Some formData) (\<lambda>request. Replied 200 (Some result)))
     = \<lparr>status = 200, content = Success result\<rparr>"
proof (intro conjI)
  show "map headers (snd (POST_A None job (Some formData) fetch))
      = [[(''Authorization'', ''Bearer undefined'')]]"
    by (simp add: POST_A_def Let_def requests_forward bearer_def)
  show "map headers (snd (POST_B None job (Some formData) fetch))
      = [[(''Authorization'', ''Bearer undefined'')]]"
    by (simp add: POST_B_def Let_def requests_forward bearer_def)
  show "fst (POST_A None job (Some formData) (\<lambda>request. Replied 200 (Some result)))
      = \<lparr>status = 200, content = Success result\<rparr>"
    by (simp add: POST_A_def Let_def forward_def ok_def)
  show "fst (POST_B None job (Some formData) (\<lambda>request. Replied 200 (Some result)))
      = \<lparr>status = 200, content = Success result\<rparr>"
    by (simp add: POST_B_def Let_def forward_def ok_def)
qed

end
